theory Spec2Isabelle
  imports Main "HOL-Library.AList"
begin

section \<open>JavaScript values\<close>

text \<open>
  The controller is duck-typed: request bodies, resume documents, array entries and the
  parsed model output are all plain JavaScript values. They are modelled by one datatype.
  An object is its list of own properties in insertion order (the place that JavaScript
  gives to integer-like keys is not modelled); a property that is absent reads as
  \<open>JUndefined\<close>. Numbers are restricted to integers, and a string is the list of its
  code units, restricted to the code units below 256 (U+0000 to U+00FF).
\<close>

datatype jsval =
    JUndefined
  | JNull
  | JBool bool
  | JNum int
  | JStr string
  | JArr "jsval list"
  | JObj "(string \<times> jsval) list"

datatype js_error =
    TypeError string
  | ReferenceError string
  | Error string
  | ValidationError string
  | CastError string
  | MongoServerError string


text \<open>Truthiness, as used by \<open>!x\<close>, \<open>x || y\<close> and \<open>if (x)\<close>.\<close>

fun truthy :: "jsval \<Rightarrow> bool" where
  "truthy JUndefined = False"
| "truthy JNull = False"
| "truthy (JBool b) = b"
| "truthy (JNum n) = (n \<noteq> 0)"
| "truthy (JStr s) = (s \<noteq> [])"
| "truthy (JArr xs) = True"
| "truthy (JObj ps) = True"

definition js_or :: "jsval \<Rightarrow> jsval \<Rightarrow> jsval" where
  "js_or a b = (if truthy a then a else b)"

subsection \<open>Strings\<close>

function show_nat :: "nat \<Rightarrow> string" where
  "show_nat n =
     (if n < 10 then [''0123456789'' ! n]
      else show_nat (n div 10) @ [''0123456789'' ! (n mod 10)])"
  by pat_completeness auto
termination
  by (relation "measure id") auto

declare show_nat.simps [simp del]

definition show_int :: "int \<Rightarrow> string" where
  "show_int i = (if i < 0 then CHR ''-'' # show_nat (nat (- i)) else show_nat (nat i))"

fun join :: "string \<Rightarrow> string list \<Rightarrow> string" where
  "join sep [] = []"
| "join sep [x] = x"
| "join sep (x # y # ys) = x @ sep @ join sep (y # ys)"

text \<open>\<open>String(x)\<close>, the conversion applied by template literals and by \<open>RegExp.test\<close>.\<close>

fun to_string :: "jsval \<Rightarrow> string" where
  "to_string JUndefined = ''undefined''"
| "to_string JNull = ''null''"
| "to_string (JBool b) = (if b then ''true'' else ''false'')"
| "to_string (JNum n) = show_int n"
| "to_string (JStr s) = s"
| "to_string (JArr xs) =
     join '','' (map (\<lambda>x. if x = JUndefined \<or> x = JNull then [] else to_string x) xs)"
| "to_string (JObj ps) = ''[object Object]''"

text \<open>White space of \<open>String.prototype.trim\<close> and of the regular-expression class \<open>\s\<close>.
  Below 256 these are tab, line feed, vertical tab, form feed, carriage return, space and
  the no-break space U+00A0.\<close>

definition whitespace :: "char list" where
  "whitespace = [CHR 0x09, CHR 0x0A, CHR 0x0B, CHR 0x0C, CHR 0x0D, CHR 0x20, CHR 0xA0]"

definition is_space :: "char \<Rightarrow> bool" where
  "is_space c = (c \<in> set whitespace)"

definition trim :: "string \<Rightarrow> string" where
  "trim s = rev (dropWhile is_space (rev (dropWhile is_space s)))"

text \<open>\<open>String.prototype.toLowerCase\<close>: below 256 the letters A to Z and U+00C0 to U+00DE,
  the multiplication sign U+00D7 apart, have a lower-case form, 32 code units above.\<close>

definition upper_case :: "char list" where
  "upper_case =
     ''ABCDEFGHIJKLMNOPQRSTUVWXYZ''
     @ [CHR 0xC0, CHR 0xC1, CHR 0xC2, CHR 0xC3, CHR 0xC4, CHR 0xC5, CHR 0xC6, CHR 0xC7,
         CHR 0xC8, CHR 0xC9, CHR 0xCA, CHR 0xCB, CHR 0xCC, CHR 0xCD, CHR 0xCE, CHR 0xCF,
         CHR 0xD0, CHR 0xD1, CHR 0xD2, CHR 0xD3, CHR 0xD4, CHR 0xD5, CHR 0xD6, CHR 0xD8,
         CHR 0xD9, CHR 0xDA, CHR 0xDB, CHR 0xDC, CHR 0xDD, CHR 0xDE]"

definition lower_case :: "char list" where
  "lower_case =
     ''abcdefghijklmnopqrstuvwxyz''
     @ [CHR 0xE0, CHR 0xE1, CHR 0xE2, CHR 0xE3, CHR 0xE4, CHR 0xE5, CHR 0xE6, CHR 0xE7,
         CHR 0xE8, CHR 0xE9, CHR 0xEA, CHR 0xEB, CHR 0xEC, CHR 0xED, CHR 0xEE, CHR 0xEF,
         CHR 0xF0, CHR 0xF1, CHR 0xF2, CHR 0xF3, CHR 0xF4, CHR 0xF5, CHR 0xF6, CHR 0xF8,
         CHR 0xF9, CHR 0xFA, CHR 0xFB, CHR 0xFC, CHR 0xFD, CHR 0xFE]"

definition to_lower :: "char \<Rightarrow> char" where
  "to_lower c = (case map_of (zip upper_case lower_case) c of None \<Rightarrow> c | Some l \<Rightarrow> l)"

definition toLowerCase :: "string \<Rightarrow> string" where
  "toLowerCase s = map to_lower s"

text \<open>\<open>s.split(c)\<close> for a one-character separator: the result is never empty.\<close>

fun split :: "char \<Rightarrow> string \<Rightarrow> string list" where
  "split c [] = [[]]"
| "split c (x # xs) =
     (if x = c then [] # split c xs
      else (case split c xs of
              [] \<Rightarrow> [[x]]
            | y # ys \<Rightarrow> (x # y) # ys))"

subsection \<open>Properties\<close>

text \<open>\<open>o[k]\<close> on a value that is neither \<open>null\<close> nor \<open>undefined\<close> (where the value can
  be one of these, the caller tests \<open>nullish\<close> first and throws). Only objects carry the
  properties the controller reads; a primitive or an array has none of them.\<close>

definition lookup :: "(string \<times> jsval) list \<Rightarrow> string \<Rightarrow> jsval" where
  "lookup ps k = (case map_of ps k of None \<Rightarrow> JUndefined | Some v \<Rightarrow> v)"

fun get_prop :: "jsval \<Rightarrow> string \<Rightarrow> jsval" where
  "get_prop (JObj ps) k = lookup ps k"
| "get_prop v k = JUndefined"

definition nullish :: "jsval \<Rightarrow> bool" where
  "nullish v = (v = JUndefined \<or> v = JNull)"

text \<open>The TypeError of reading property \<open>key\<close> of \<open>undefined\<close> or \<open>null\<close>.\<close>

definition cannot_read :: "jsval \<Rightarrow> string \<Rightarrow> js_error" where
  "cannot_read v key =
     TypeError (''Cannot read properties of '' @ to_string v
                @ '' (reading '' @ [CHR 0x27] @ key @ [CHR 0x27] @ '')'')"

text \<open>The own enumerable properties copied by object spread \<open>{...x}\<close>.\<close>

fun own_props :: "jsval \<Rightarrow> (string \<times> jsval) list" where
  "own_props (JObj ps) = ps"
| "own_props (JArr xs) = zip (map show_nat [0..<length xs]) xs"
| "own_props (JStr s) = zip (map show_nat [0..<length s]) (map (\<lambda>c. JStr [c]) s)"
| "own_props v = []"

text \<open>\<open>{...target, ...source}\<close>: the properties of the source are assigned in order;
  an existing property keeps its position (\<open>AList.update\<close>), a new one is appended.\<close>

definition assign :: "(string \<times> jsval) list \<Rightarrow> (string \<times> jsval) list \<Rightarrow> (string \<times> jsval) list" where
  "assign target source = fold (\<lambda>(k, v). AList.update k v) source target"

text \<open>\<open>xs[i]\<close> for an integer \<open>i\<close>: outside \<open>0 .. length - 1\<close> the read yields \<open>undefined\<close>.\<close>

definition at_index :: "jsval list \<Rightarrow> int \<Rightarrow> jsval" where
  "at_index xs i = (if 0 \<le> i \<and> i < int (length xs) then xs ! nat i else JUndefined)"

subsection \<open>Regular expressions\<close>

text \<open>A small matcher by derivatives, enough to write the e-mail pattern of
  \<open>validateResumeData\<close> as it stands in the source. \<open>matches\<close> is a match of the whole
  string, as the anchors \<open>^\<close> and \<open>$\<close> require.\<close>

datatype rx =
    Nothing
  | Empty
  | Chr char
  | NoneOf "char list"
  | Seq rx rx
  | Alt rx rx
  | Star rx

definition Rep1 :: "rx \<Rightarrow> rx" where
  "Rep1 r = Seq r (Star r)"

fun nullable :: "rx \<Rightarrow> bool" where
  "nullable Nothing = False"
| "nullable Empty = True"
| "nullable (Chr c) = False"
| "nullable (NoneOf cs) = False"
| "nullable (Seq r s) = (nullable r \<and> nullable s)"
| "nullable (Alt r s) = (nullable r \<or> nullable s)"
| "nullable (Star r) = True"

fun deriv :: "char \<Rightarrow> rx \<Rightarrow> rx" where
  "deriv a Nothing = Nothing"
| "deriv a Empty = Nothing"
| "deriv a (Chr c) = (if a = c then Empty else Nothing)"
| "deriv a (NoneOf cs) = (if a \<in> set cs then Nothing else Empty)"
| "deriv a (Seq r s) =
     (if nullable r then Alt (Seq (deriv a r) s) (deriv a s) else Seq (deriv a r) s)"
| "deriv a (Alt r s) = Alt (deriv a r) (deriv a s)"
| "deriv a (Star r) = Seq (deriv a r) (Star r)"

fun matches :: "rx \<Rightarrow> string \<Rightarrow> bool" where
  "matches r [] = nullable r"
| "matches r (c # cs) = matches (deriv c r) cs"

text \<open>\<open>/^[^\s@]+@[^\s@]+\.[^\s@]+$/\<close>\<close>

definition email_rx :: rx where
  "email_rx =
     Seq (Rep1 (NoneOf (whitespace @ ''@'')))
    (Seq (Chr CHR ''@'')
    (Seq (Rep1 (NoneOf (whitespace @ ''@'')))
    (Seq (Chr CHR ''.'')
         (Rep1 (NoneOf (whitespace @ ''@''))))))"

section \<open>Validation of the request data\<close>

text \<open>\<open>!v || v.trim().length === 0\<close>: a truthy value that is not a string has no
  \<open>trim\<close> method, and the call throws.\<close>

definition blank :: "string \<Rightarrow> jsval \<Rightarrow> js_error + bool" where
  "blank what v =
     (if \<not> truthy v then Inr True
      else (case v of
              JStr s \<Rightarrow> Inr (length (trim s) = 0)
            | _ \<Rightarrow> Inl (TypeError (what @ ''.trim is not a function''))))"

definition validateResumeData :: "jsval \<Rightarrow> js_error + string list" where
  "validateResumeData resumeData =
     (if nullish resumeData
      then Inl (cannot_read resumeData ''name'')
      else
        (case blank ''resumeData.name'' (get_prop resumeData ''name'') of
           Inl err \<Rightarrow> Inl err
         | Inr noName \<Rightarrow>
             (let email = get_prop resumeData ''email'';
                  noEmail = (\<not> truthy email \<or> \<not> matches email_rx (to_string email))
              in (case blank ''resumeData.phone'' (get_prop resumeData ''phone'') of
                    Inl err \<Rightarrow> Inl err
                  | Inr noPhone \<Rightarrow>
                      Inr ((if noName then [''Name is required''] else [])
                         @ (if noEmail then [''Valid email is required''] else [])
                         @ (if noPhone then [''Phone number is required''] else []))))))"

section \<open>The environment of the controller\<close>

text \<open>
  What the controller calls but does not define is a parameter of the model:
  the generation model (\<open>model.generateContent\<close>, which yields a text or throws), the
  built-ins \<open>JSON.parse\<close> (\<open>None\<close> when it throws a SyntaxError) and \<open>JSON.stringify\<close>,
  the validators that Mongoose runs for the schema on \<open>save()\<close> and on an update with
  \<open>runValidators\<close> (\<open>None\<close> when the data is valid, else the error thrown), the
  error object that the store throws for data it cannot cast and for a change of \<open>_id\<close>,
  the clock (\<open>new Date()\<close>), the identifier given to a new document, and
  \<open>process.env.NODE_ENV === 'development'\<close>.
\<close>

datatype store_failure =
    CastFailure "(string \<times> jsval) list"
  | ImmutableId

record env =
  generateContent :: "string \<Rightarrow> js_error + string"
  JSON_parse :: "string \<Rightarrow> jsval option"
  JSON_stringify :: "jsval \<Rightarrow> string"
  validators :: "jsval \<Rightarrow> js_error option"
  thrown :: "store_failure \<Rightarrow> js_error"
  now :: jsval
  newId :: jsval
  development :: bool

section \<open>State\<close>

text \<open>
  The state is the collection of persisted resume documents, the process-wide map
  \<open>changeTrackers\<close>, the pending call of the debounced function (lodash keeps the
  arguments of the latest call and restarts its timer on every call) and the console.
\<close>

record tracker =
  lastData :: jsval
  pendingSave :: bool
  lastSavedAt :: jsval

datatype log_entry =
    LogSaved bool jsval
  | LogSaveError bool js_error
  | LogAutoSaving jsval
  | LogAutoSaveFailed js_error
  | LogCreateError js_error
  | LogParseFailed

record state =
  store :: "jsval list"
  changeTrackers :: "(jsval \<times> tracker) list"
  timer :: "(jsval \<times> jsval) option"
  console :: "log_entry list"

definition log :: "log_entry \<Rightarrow> state \<Rightarrow> state" where
  "log entry s = s\<lparr>console := console s @ [entry]\<rparr>"

section \<open>The document store (Temp2Model.js)\<close>

text \<open>
  The store is the Mongoose model of Temp2Model.js, as far as the controller uses it: a
  collection of documents, read by identifier or by e-mail address, written by
  \<open>findByIdAndUpdate\<close> and by \<open>save()\<close>. Data that is written is cast by the schema: a
  key that is not a path of the schema is dropped (strict mode), the value of a String
  path is converted to a string and passed through the setters of the path (\<open>trim\<close>, for
  \<open>email\<close> also \<open>lowercase\<close>), an array path takes an array, and data that cannot be cast
  makes the operation throw. Every write stamps \<open>updatedAt\<close>. The value of a query for
  \<open>email\<close> is cast and passed through the setters as well. Middleware registered for
  \<open>save\<close> runs on \<open>save()\<close> only: \<open>findByIdAndUpdate\<close> does not run it. Validators run
  on \<open>save()\<close>, and on an update only under \<open>runValidators\<close>. The version key \<open>__v\<close> and
  the unique index are not modelled, identifiers are compared as they are given, and a
  new document takes its time stamps from the clock.
\<close>

subsection \<open>The schema\<close>

definition string_paths :: "string list" where
  "string_paths =
     [''name'', ''role'', ''phone'', ''email'', ''linkedin'', ''location'', ''summary'']"

text \<open>The array paths whose entries are sub-documents, each with the String paths of its
  sub-schema, and the array of strings \<open>skills\<close>.\<close>

definition entry_schema :: "(string \<times> string list) list" where
  "entry_schema =
     [(''experience'',
         [''title'', ''companyName'', ''date'', ''companyLocation'', ''description'',
          ''accomplishment'']),
      (''education'', [''degree'', ''institution'', ''duration'', ''grade'']),
      (''achievements'', [''keyAchievements'', ''describe'']),
      (''courses'', [''title'', ''description'']),
      (''projects'', [''title'', ''duration'', ''description''])]"

definition array_paths :: "string list" where
  "array_paths =
     [''experience'', ''education'', ''achievements'', ''courses'', ''skills'', ''projects'']"

definition content_paths :: "string list" where
  "content_paths = string_paths @ array_paths"

subsection \<open>Casting\<close>

text \<open>The cast to String: \<open>null\<close> and \<open>undefined\<close> stay, a number or a boolean is
  converted, an object with a string \<open>_id\<close> stands for that string, and any other object
  or an array cannot be cast (\<open>None\<close>).\<close>

fun cast_string :: "jsval \<Rightarrow> jsval option" where
  "cast_string JUndefined = Some JUndefined"
| "cast_string JNull = Some JNull"
| "cast_string (JBool b) = Some (JStr (to_string (JBool b)))"
| "cast_string (JNum n) = Some (JStr (to_string (JNum n)))"
| "cast_string (JStr s) = Some (JStr s)"
| "cast_string (JArr xs) = None"
| "cast_string (JObj ps) =
     (case lookup ps ''_id'' of
        JStr ident \<Rightarrow> (if ident = [] then None else Some (JStr ident))
      | _ \<Rightarrow> None)"

text \<open>The setters \<open>trim\<close> and \<open>lowercase\<close> of a String path.\<close>

fun setters :: "bool \<Rightarrow> jsval \<Rightarrow> jsval" where
  "setters lowercase (JStr s) = JStr (if lowercase then toLowerCase (trim s) else trim s)"
| "setters lowercase v = v"

definition cast_text :: "bool \<Rightarrow> jsval \<Rightarrow> jsval option" where
  "cast_text lowercase v = map_option (setters lowercase) (cast_string v)"

text \<open>A sub-document: the keys of the sub-schema are kept, in the order given, and
  their values cast (all String paths of the sub-schemas have \<open>trim\<close>).\<close>

fun cast_props :: "string list \<Rightarrow> (string \<times> jsval) list \<Rightarrow> (string \<times> jsval) list option" where
  "cast_props subpaths [] = Some []"
| "cast_props subpaths ((k, v) # ps) =
     (if k \<in> set subpaths
      then (case cast_text False v of
              None \<Rightarrow> None
            | Some v' \<Rightarrow> map_option (Cons (k, v')) (cast_props subpaths ps))
      else cast_props subpaths ps)"

text \<open>An entry of an array of sub-documents: a falsy entry is left as it is, an object
  becomes a sub-document (an array has no key of a sub-schema), and any other value
  cannot be cast.\<close>

definition cast_entry :: "string list \<Rightarrow> jsval \<Rightarrow> jsval option" where
  "cast_entry subpaths v =
     (if \<not> truthy v then Some v
      else (case v of
              JObj ps \<Rightarrow> map_option JObj (cast_props subpaths ps)
            | JArr xs \<Rightarrow> Some (JObj [])
            | _ \<Rightarrow> None))"

text \<open>An array path: the entries of an array are cast one by one, \<open>null\<close> and
  \<open>undefined\<close> stay, and any other value is taken as an array of one entry.\<close>

definition cast_array :: "(jsval \<Rightarrow> jsval option) \<Rightarrow> jsval \<Rightarrow> jsval option" where
  "cast_array cast_item v =
     (case v of
        JArr xs \<Rightarrow> map_option JArr (those (map cast_item xs))
      | JUndefined \<Rightarrow> Some JUndefined
      | JNull \<Rightarrow> Some JNull
      | _ \<Rightarrow> map_option (\<lambda>item. JArr [item]) (cast_item v))"

definition schema_cast :: "string \<Rightarrow> jsval \<Rightarrow> jsval option" where
  "schema_cast path v =
     (if path = ''email'' then cast_text True v
      else if path \<in> set string_paths then cast_text False v
      else if path = ''skills'' then cast_array cast_string v
      else (case map_of entry_schema path of
              Some subpaths \<Rightarrow> cast_array (cast_entry subpaths) v
            | None \<Rightarrow> None))"

text \<open>The data of a write: the content paths are kept and cast, every other key is
  dropped.\<close>

fun cast_paths :: "(string \<times> jsval) list \<Rightarrow> (string \<times> jsval) list option" where
  "cast_paths [] = Some []"
| "cast_paths ((k, v) # ps) =
     (if k \<in> set content_paths
      then (case schema_cast k v of
              None \<Rightarrow> None
            | Some v' \<Rightarrow> map_option (Cons (k, v')) (cast_paths ps))
      else cast_paths ps)"

subsection \<open>Queries and writes\<close>

definition findById :: "jsval list \<Rightarrow> jsval \<Rightarrow> jsval option" where
  "findById docs ident = find (\<lambda>d. get_prop d ''_id'' = ident) docs"

text \<open>\<open>Resume.findOne({ email })\<close>: the address is cast and passed through the setters of
  the path; a query for \<open>null\<close> or \<open>undefined\<close> finds a document without an address.\<close>

definition findOne_email :: "env \<Rightarrow> jsval list \<Rightarrow> jsval \<Rightarrow> js_error + jsval option" where
  "findOne_email e docs email =
     (case cast_text True email of
        None \<Rightarrow> Inl (thrown e (CastFailure [(''email'', email)]))
      | Some query \<Rightarrow>
          Inr (find (\<lambda>d. if nullish query then nullish (get_prop d ''email'')
                         else get_prop d ''email'' = query) docs))"

fun replace_doc :: "jsval \<Rightarrow> jsval \<Rightarrow> jsval list \<Rightarrow> jsval list" where
  "replace_doc ident d' [] = []"
| "replace_doc ident d' (d # ds) =
     (if get_prop d ''_id'' = ident then d' # ds else d # replace_doc ident d' ds)"

text \<open>\<open>Resume.findByIdAndUpdate(id, { $set: ... }, { new: true, runValidators })\<close>:
  the update is cast, validated if asked for, and applied to the document with this
  identifier, together with the stamp \<open>updatedAt\<close>. The result is the updated document,
  or \<open>null\<close> when there is none with this identifier. An update that would give the
  document another \<open>_id\<close> is refused by the database.\<close>

definition findByIdAndUpdate ::
  "env \<Rightarrow> jsval list \<Rightarrow> jsval \<Rightarrow> (string \<times> jsval) list \<Rightarrow> bool
     \<Rightarrow> js_error + (jsval option \<times> jsval list)" where
  "findByIdAndUpdate e docs ident update runValidators =
     (case cast_paths update of
        None \<Rightarrow> Inl (thrown e (CastFailure update))
      | Some cast \<Rightarrow>
          (case (if runValidators then validators e (JObj cast) else None) of
             Some err \<Rightarrow> Inl err
           | None \<Rightarrow>
               (case findById docs ident of
                  None \<Rightarrow> Inr (None, docs)
                | Some d \<Rightarrow>
                    if lookup update ''_id'' \<noteq> JUndefined \<and> lookup update ''_id'' \<noteq> ident
                    then Inl (thrown e ImmutableId)
                    else (let d' = JObj (assign (own_props d)
                                           (cast @ [(''updatedAt'', now e)]))
                          in Inr (Some d', replace_doc ident d' docs)))))"

text \<open>The middleware \<open>resumeSchema.pre('save')\<close>.\<close>

fun trim_skill :: "jsval \<Rightarrow> js_error + jsval" where
  "trim_skill (JStr s) = Inr (JStr (trim s))"
| "trim_skill v =
     Inl (if nullish v then cannot_read v ''trim''
          else TypeError ''skill.trim is not a function'')"

fun map_skills :: "jsval list \<Rightarrow> js_error + jsval list" where
  "map_skills [] = Inr []"
| "map_skills (x # xs) =
     (case trim_skill x of
        Inl err \<Rightarrow> Inl err
      | Inr y \<Rightarrow> (case map_skills xs of Inl err \<Rightarrow> Inl err | Inr ys \<Rightarrow> Inr (y # ys)))"

definition js_length :: "jsval \<Rightarrow> nat" where
  "js_length v = (case v of JStr s \<Rightarrow> length s | JArr xs \<Rightarrow> length xs | _ \<Rightarrow> 0)"

definition pre_save :: "jsval \<Rightarrow> js_error + jsval" where
  "pre_save doc =
     (case get_prop doc ''skills'' of
        JArr skills \<Rightarrow>
          (case map_skills skills of
             Inl err \<Rightarrow> Inl err
           | Inr trimmed \<Rightarrow>
               Inr (JObj (AList.update ''skills''
                      (JArr (filter (\<lambda>skill. js_length skill > 0) trimmed)) (own_props doc))))
      | _ \<Rightarrow> Inr doc)"

text \<open>An array path that the data does not set takes the default, the empty array.\<close>

definition with_defaults :: "(string \<times> jsval) list \<Rightarrow> (string \<times> jsval) list" where
  "with_defaults props =
     props @ map (\<lambda>path. (path, JArr [])) (filter (\<lambda>path. map_of props path = None) array_paths)"

text \<open>\<open>new Resume(data).save()\<close>: the data is cast, the new document gets its
  identifier, is validated, goes through the \<open>save\<close> middleware and is inserted with its
  time stamps.\<close>

definition save :: "env \<Rightarrow> jsval list \<Rightarrow> (string \<times> jsval) list \<Rightarrow> js_error + (jsval \<times> jsval list)" where
  "save e docs data =
     (case cast_paths data of
        None \<Rightarrow> Inl (thrown e (CastFailure data))
      | Some cast \<Rightarrow>
          (let doc = JObj ((''_id'', newId e) # with_defaults cast)
           in (case validators e doc of
                 Some err \<Rightarrow> Inl err
               | None \<Rightarrow>
                   (case pre_save doc of
                      Inl err \<Rightarrow> Inl err
                    | Inr cleaned \<Rightarrow>
                        (let doc' = JObj (assign (own_props cleaned)
                                            [(''createdAt'', now e), (''updatedAt'', now e)])
                         in Inr (doc', docs @ [doc']))))))"

text \<open>\<open>doc.toObject()\<close> with \<open>virtuals: true\<close>: the virtuals are added, \<open>id\<close>, which
  every schema has, and \<open>displayName\<close>.\<close>

definition toObject :: "jsval \<Rightarrow> jsval" where
  "toObject doc =
     JObj (assign (own_props doc)
             [(''id'', JStr (to_string (get_prop doc ''_id''))),
              (''displayName'',
                 JStr (to_string (get_prop doc ''name'') @ '' - ''
                       @ to_string (get_prop doc ''role'')))])"

section \<open>Saving (temp2controller.js)\<close>

definition saveResumeData_try ::
  "env \<Rightarrow> jsval \<Rightarrow> bool \<Rightarrow> jsval \<Rightarrow> jsval list \<Rightarrow> js_error + (jsval \<times> jsval list)" where
  "saveResumeData_try e resumeData isAutoSave userId docs =
     (case validateResumeData resumeData of
        Inl err \<Rightarrow> Inl err
      | Inr validationErrors \<Rightarrow>
          if \<not> isAutoSave \<and> length validationErrors > 0
          then Inl (Error (''Validation failed: '' @ join '', '' validationErrors))
          else if truthy (get_prop resumeData ''_id'')
          then (case findByIdAndUpdate e docs (get_prop resumeData ''_id'')
                       (own_props resumeData @ [(''lastSavedAt'', now e)]) (\<not> isAutoSave) of
                  Inl err \<Rightarrow> Inl err
                | Inr (None, docs') \<Rightarrow> Inl (Error ''Resume not found'')
                | Inr (Some savedResume, docs') \<Rightarrow> Inr (savedResume, docs'))
          else (case findOne_email e docs (get_prop resumeData ''email'') of
                  Inl err \<Rightarrow> Inl err
                | Inr (Some existingResume) \<Rightarrow>
                    (case findByIdAndUpdate e docs (get_prop existingResume ''_id'')
                            (own_props resumeData @ [(''lastSavedAt'', now e)]) (\<not> isAutoSave) of
                       Inl err \<Rightarrow> Inl err
                     | Inr (None, docs') \<Rightarrow>
                         Inl (cannot_read JNull ''_id'')
                     | Inr (Some savedResume, docs') \<Rightarrow> Inr (savedResume, docs'))
                | Inr None \<Rightarrow>
                    save e docs
                      (assign (own_props resumeData)
                         [(''createdBy'', userId), (''lastSavedAt'', now e)])))"

text \<open>The \<open>try\<close>/\<open>catch\<close> of \<open>saveResumeData\<close>: the outcome is logged and an error is
  thrown again.\<close>

definition saveResumeData ::
  "env \<Rightarrow> jsval \<Rightarrow> bool \<Rightarrow> jsval \<Rightarrow> state \<Rightarrow> (js_error + jsval) \<times> state" where
  "saveResumeData e resumeData isAutoSave userId s =
     (case saveResumeData_try e resumeData isAutoSave userId (store s) of
        Inl err \<Rightarrow> (Inl err, log (LogSaveError isAutoSave err) s)
      | Inr (savedResume, docs') \<Rightarrow>
          (Inr savedResume,
           log (LogSaved isAutoSave (get_prop savedResume ''_id'')) (s\<lparr>store := docs'\<rparr>)))"

section \<open>Autosave (temp2controller.js)\<close>

text \<open>The function wrapped by \<open>debounce\<close>: first the body of its \<open>try\<close> block, which
  ends normally (\<open>None\<close>) or by an error thrown by \<open>saveResumeData\<close>; then the whole
  function, whose \<open>catch\<close> logs the error and returns.\<close>

definition autoSave_try :: "env \<Rightarrow> jsval \<Rightarrow> jsval \<Rightarrow> state \<Rightarrow> js_error option \<times> state" where
  "autoSave_try e userId resumeData s =
     (case map_of (changeTrackers s) userId of
        None \<Rightarrow> (None, s)
      | Some t \<Rightarrow>
          if pendingSave t \<and> JSON_stringify e (lastData t) \<noteq> JSON_stringify e resumeData
          then (case saveResumeData e resumeData True userId (log (LogAutoSaving userId) s) of
                  (Inl err, s') \<Rightarrow> (Some err, s')
                | (Inr savedResume, s') \<Rightarrow>
                    (None,
                     s'\<lparr>changeTrackers :=
                          AList.update userId
                            \<lparr>lastData = resumeData, pendingSave = False, lastSavedAt = now e\<rparr>
                            (changeTrackers s')\<rparr>))
          else (None, s))"

definition autoSave :: "env \<Rightarrow> jsval \<Rightarrow> jsval \<Rightarrow> state \<Rightarrow> state" where
  "autoSave e userId resumeData s =
     (case autoSave_try e userId resumeData s of
        (None, s') \<Rightarrow> s'
      | (Some err, s') \<Rightarrow> log (LogAutoSaveFailed err) s')"

text \<open>\<open>debouncedAutoSave(userId, resumeData)\<close>: the call is recorded and the timer
  restarted. \<open>fire\<close> is the timer running out after the quiescence window: the wrapped
  function runs once, with the arguments of the latest call.\<close>

definition debouncedAutoSave :: "jsval \<Rightarrow> jsval \<Rightarrow> state \<Rightarrow> state" where
  "debouncedAutoSave userId resumeData s = s\<lparr>timer := Some (userId, resumeData)\<rparr>"

definition fire :: "env \<Rightarrow> state \<Rightarrow> state" where
  "fire e s =
     (case timer s of
        None \<Rightarrow> s
      | Some (userId, resumeData) \<Rightarrow> autoSave e userId resumeData (s\<lparr>timer := None\<rparr>))"

definition trackChanges :: "jsval \<Rightarrow> jsval \<Rightarrow> state \<Rightarrow> state" where
  "trackChanges userId resumeData s =
     debouncedAutoSave userId resumeData
       (case map_of (changeTrackers s) userId of
          None \<Rightarrow>
            s\<lparr>changeTrackers :=
                AList.update userId
                  \<lparr>lastData = resumeData, pendingSave = False, lastSavedAt = JNull\<rparr>
                  (changeTrackers s)\<rparr>
        | Some t \<Rightarrow>
            s\<lparr>changeTrackers :=
                AList.update userId (t\<lparr>pendingSave := True\<rparr>) (changeTrackers s)\<rparr>)"


section \<open>Request handlers (temp2controller.js)\<close>

text \<open>A handler either sends a response (\<open>res.status(n).json(body)\<close>) or its promise is
  rejected and nothing is sent.\<close>

datatype outcome =
    Sent nat jsval
  | Rejected js_error

subsection \<open>createResume\<close>



subsection \<open>enhanceField: the prompts\<close>

definition nl :: string where
  "nl = [CHR 0x0A]"

text \<open>\<open>${entry.key || 'default'}\<close>\<close>

definition or_text :: "jsval \<Rightarrow> string \<Rightarrow> string \<Rightarrow> string" where
  "or_text obj key dflt = to_string (js_or (get_prop obj key) (JStr dflt))"

definition experience_prompt :: "jsval \<Rightarrow> string" where
  \<open>experience_prompt entry =
     ''Enhance this work experience entry for a professional resume. Keep it concise but impactful. Here are the current details:'' @ nl
   @ ''          - Job Title: '' @ or_text entry ''title'' ''Not specified'' @ nl
   @ ''          - Company: '' @ or_text entry ''companyName'' ''Not specified'' @ nl
   @ ''          - Dates: '' @ or_text entry ''date'' ''Not specified'' @ nl
   @ ''          - Location: '' @ or_text entry ''companyLocation'' ''Not specified'' @ nl
   @ ''          - Description: '' @ or_text entry ''description'' ''No description provided'' @ nl
   @ ''          - Accomplishments: '' @ or_text entry ''accomplishment'' ''No accomplishments provided'' @ nl
   @ ''          '' @ nl
   @ ''          Please return enhanced versions of both the description and accomplishment in JSON format:'' @ nl
   @ ''          {'' @ nl
   @ ''            "description": "Enhanced job description...",'' @ nl
   @ ''            "accomplishment": "Enhanced accomplishment..."'' @ nl
   @ ''          }''\<close>

definition education_prompt :: "jsval \<Rightarrow> string" where
  \<open>education_prompt entry =
     ''Enhance this education entry for a professional resume:'' @ nl
   @ ''          - Degree: '' @ or_text entry ''degree'' ''Not specified'' @ nl
   @ ''          - Institution: '' @ or_text entry ''institution'' ''Not specified'' @ nl
   @ ''          - Dates: '' @ or_text entry ''duration'' ''Not specified'' @ nl
   @ ''          - Grade: '' @ or_text entry ''grade'' ''Not specified'' @ nl
   @ ''          '' @ nl
   @ ''          Return enhanced degree and institution description in JSON format:'' @ nl
   @ ''          {'' @ nl
   @ ''            "degree": "Enhanced degree description...",'' @ nl
   @ ''            "institution": "Enhanced institution description..."'' @ nl
   @ ''          }''\<close>

definition achievements_prompt :: "jsval \<Rightarrow> string" where
  \<open>achievements_prompt entry =
     ''Enhance this achievement for a professional resume:'' @ nl
   @ ''          - Achievement: '' @ or_text entry ''keyAchievements'' ''Not specified'' @ nl
   @ ''          - Description: '' @ or_text entry ''describe'' ''No description provided'' @ nl
   @ ''          '' @ nl
   @ ''          Return enhanced achievement and description in JSON format:'' @ nl
   @ ''          {'' @ nl
   @ ''            "keyAchievements": "Enhanced achievement...",'' @ nl
   @ ''            "describe": "Enhanced description..."'' @ nl
   @ ''          }''\<close>

definition projects_prompt :: "jsval \<Rightarrow> string" where
  \<open>projects_prompt entry =
     ''Enhance this project description for a professional resume:'' @ nl
   @ ''          - Project: '' @ or_text entry ''title'' ''Not specified'' @ nl
   @ ''          - Duration: '' @ or_text entry ''duration'' ''Not specified'' @ nl
   @ ''          - Description: '' @ or_text entry ''description'' ''No description provided'' @ nl
   @ ''          '' @ nl
   @ ''          Return enhanced description in JSON format:'' @ nl
   @ ''          {'' @ nl
   @ ''            "description": "Enhanced project description..."'' @ nl
   @ ''          }''\<close>

definition courses_prompt :: "jsval \<Rightarrow> string" where
  \<open>courses_prompt entry =
     ''Enhance this course description for a professional resume:'' @ nl
   @ ''          - Course: '' @ or_text entry ''title'' ''Not specified'' @ nl
   @ ''          - Description: '' @ or_text entry ''description'' ''No description provided'' @ nl
   @ ''          '' @ nl
   @ ''          Return enhanced description in JSON format:'' @ nl
   @ ''          {'' @ nl
   @ ''            "description": "Enhanced course description..."'' @ nl
   @ ''          }''\<close>

text \<open>The \<open>switch\<close> of the entry branch: \<open>None\<close> is its \<open>default\<close> case. Each case
  reads properties of the entry, which throws when the entry is \<open>undefined\<close> or \<open>null\<close>;
  the first property read is \<open>title\<close>, \<open>degree\<close> or \<open>keyAchievements\<close>.\<close>

definition entry_prompt :: "jsval \<Rightarrow> (string \<times> (jsval \<Rightarrow> string)) option" where
  "entry_prompt field =
     (if field = JStr ''experience'' then Some (''title'', experience_prompt)
      else if field = JStr ''education'' then Some (''degree'', education_prompt)
      else if field = JStr ''achievements'' then Some (''keyAchievements'', achievements_prompt)
      else if field = JStr ''projects'' then Some (''title'', projects_prompt)
      else if field = JStr ''courses'' then Some (''title'', courses_prompt)
      else None)"

definition summary_prompt :: "jsval \<Rightarrow> string" where
  "summary_prompt resume =
     ''Enhance this resume summary to make it more professional and tailored for a ''
   @ or_text resume ''role'' ''job''
   @ '' position. Keep it concise (3-4 sentences). Current summary: ''
   @ or_text resume ''summary'' ''No summary provided''"

text \<open>\<open>resume.skills?.join(', ')\<close>\<close>

definition skills_joined :: "jsval \<Rightarrow> js_error + jsval" where
  "skills_joined skills =
     (if nullish skills then Inr JUndefined
      else (case skills of
              JArr xs \<Rightarrow>
                Inr (JStr (join '', '' (map (\<lambda>x. if nullish x then [] else to_string x) xs)))
            | _ \<Rightarrow> Inl (TypeError ''resume.skills?.join is not a function'')))"

definition skills_prompt :: "jsval \<Rightarrow> js_error + string" where
  "skills_prompt resume =
     (case skills_joined (get_prop resume ''skills'') of
        Inl err \<Rightarrow> Inl err
      | Inr joined \<Rightarrow>
          Inr (''Enhance and categorize these skills for a resume. Current skills: ''
             @ to_string (js_or joined (JStr ''No skills provided''))
             @ ''. Return only a comma-separated list of enhanced skills.''))"

text \<open>The \<open>switch\<close> of the whole-field branch: \<open>None\<close> is its \<open>default\<close> case.\<close>

definition field_prompt :: "jsval \<Rightarrow> jsval \<Rightarrow> (js_error + string) option" where
  "field_prompt field resume =
     (if field = JStr ''summary'' then Some (Inr (summary_prompt resume))
      else if field = JStr ''skills'' then Some (skills_prompt resume)
      else None)"

subsection \<open>enhanceField\<close>

text \<open>
  The request body carries \<open>resumeId\<close>, \<open>field\<close> and \<open>index\<close>. The index is an integer,
  or \<open>None\<close> when it is \<open>undefined\<close> or \<open>null\<close>.
\<close>

definition index_out_of_range :: "int \<Rightarrow> jsval list \<Rightarrow> bool" where
  "index_out_of_range index fieldData = (index \<ge> int (length fieldData))"

definition invalid_index_response :: outcome where
  "invalid_index_response =
     Sent 400 (JObj
       [(''success'', JBool False),
        (''message'', JStr ''Invalid index for field array'')])"

definition parse_failed_response :: outcome where
  "parse_failed_response =
     Sent 500 (JObj
       [(''success'', JBool False),
        (''message'', JStr ''Failed to parse AI enhancement response'')])"

definition entry_unsupported_response :: outcome where
  "entry_unsupported_response =
     Sent 400 (JObj
       [(''success'', JBool False),
        (''message'', JStr ''Field not supported for individual entry enhancement'')])"

definition field_unsupported_response :: outcome where
  "field_unsupported_response =
     Sent 400 (JObj
       [(''success'', JBool False),
        (''message'', JStr ''Field not supported for enhancement'')])"

text \<open>The branch for one entry of an array field (\<open>index\<close> given, \<open>fieldData\<close> an array).\<close>

definition enhance_entry ::
  "env \<Rightarrow> jsval \<Rightarrow> jsval \<Rightarrow> int \<Rightarrow> jsval list \<Rightarrow> state \<Rightarrow> js_error + outcome \<times> state" where
  "enhance_entry e resumeId field index fieldData s =
     (if index_out_of_range index fieldData then Inr (invalid_index_response, s)
      else
        (let entry = at_index fieldData index
         in (case entry_prompt field of
               None \<Rightarrow> Inr (entry_unsupported_response, s)
             | Some (key, prompt) \<Rightarrow>
                 if nullish entry then Inl (cannot_read entry key)
                 else
                   (case generateContent e (prompt entry) of
                      Inl err \<Rightarrow> Inl err
                    | Inr text \<Rightarrow>
                        (case JSON_parse e text of
                           None \<Rightarrow> Inr (parse_failed_response, log LogParseFailed s)
                         | Some enhancedData \<Rightarrow>
                             (case entry of
                                JObj props \<Rightarrow>
                                  (let updatedEntry = JObj (assign props (own_props enhancedData));
                                       updatedArray = fieldData[nat index := updatedEntry]
                                   in (case findByIdAndUpdate e (store s) resumeId
                                              [(to_string field, JArr updatedArray)] False of
                                         Inl err \<Rightarrow> Inl err
                                       | Inr (None, docs') \<Rightarrow>
                                           Inl (cannot_read JNull (to_string field))
                                       | Inr (Some savedResume, docs') \<Rightarrow>
                                           (case get_prop savedResume (to_string field) of
                                              JArr saved \<Rightarrow>
                                                Inr (Sent 200 (JObj
                                                       [(''success'', JBool True),
                                                        (''message'', JStr (''Enhanced '' @ to_string field @ '' entry successfully'')),
                                                        (''data'', at_index saved index),
                                                        (''enhancedField'', field),
                                                        (''enhancedIndex'', JNum index)]),
                                                     s\<lparr>store := docs'\<rparr>)
                                            | v \<Rightarrow> Inl (cannot_read v (show_int index)))))
                              | _ \<Rightarrow> Inl (TypeError ''entry.toObject is not a function'')))))))"

text \<open>The branch for a whole field.\<close>

definition enhance_whole ::
  "env \<Rightarrow> jsval \<Rightarrow> jsval \<Rightarrow> jsval \<Rightarrow> state \<Rightarrow> js_error + outcome \<times> state" where
  "enhance_whole e resumeId field resume s =
     (case field_prompt field resume of
        None \<Rightarrow> Inr (field_unsupported_response, s)
      | Some (Inl err) \<Rightarrow> Inl err
      | Some (Inr prompt) \<Rightarrow>
          (case generateContent e prompt of
             Inl err \<Rightarrow> Inl err
           | Inr enhancedText \<Rightarrow>
               (let update =
                      (if field = JStr ''skills''
                       then JArr (map (\<lambda>skill. JStr (trim skill)) (split CHR '','' enhancedText))
                       else JStr enhancedText)
                in (case findByIdAndUpdate e (store s) resumeId [(to_string field, update)] False of
                      Inl err \<Rightarrow> Inl err
                    | Inr (None, docs') \<Rightarrow> Inl (cannot_read JNull (to_string field))
                    | Inr (Some savedResume, docs') \<Rightarrow>
                        Inr (Sent 200 (JObj
                               [(''success'', JBool True),
                                (''message'', JStr (''Enhanced '' @ to_string field @ '' successfully'')),
                                (''data'', get_prop savedResume (to_string field))]),
                             s\<lparr>store := docs'\<rparr>)))))"

text \<open>The body of the \<open>try\<close> block.\<close>

definition enhanceField_try ::
  "env \<Rightarrow> jsval \<Rightarrow> jsval \<Rightarrow> int option \<Rightarrow> state \<Rightarrow> js_error + outcome \<times> state" where
  "enhanceField_try e resumeId field index s =
     (if \<not> truthy resumeId
      then Inr (Sent 400 (JObj
                  [(''success'', JBool False),
                   (''message'', JStr ''Resume ID is required'')]), s)
      else if \<not> truthy field
      then Inr (Sent 400 (JObj
                  [(''success'', JBool False),
                   (''message'', JStr ''Field to enhance is required'')]), s)
      else
        (case findById (store s) resumeId of
           None \<Rightarrow>
             Inr (Sent 404 (JObj
                    [(''success'', JBool False),
                     (''message'', JStr ''Resume not found'')]), s)
         | Some resume \<Rightarrow>
             (case (index, get_prop resume (to_string field)) of
                (Some i, JArr fieldData) \<Rightarrow> enhance_entry e resumeId field i fieldData s
              | _ \<Rightarrow> enhance_whole e resumeId field resume s)))"

text \<open>
  The \<open>catch\<close> block of \<open>enhanceField\<close> starts by evaluating \<open>field\<close>, a \<open>const\<close> declared
  inside the \<open>try\<close> block and so out of scope in the \<open>catch\<close>: the evaluation throws a
  ReferenceError, nothing is logged or sent, and the promise of the handler is rejected.
\<close>

definition enhanceField ::
  "env \<Rightarrow> jsval \<Rightarrow> jsval \<Rightarrow> int option \<Rightarrow> state \<Rightarrow> outcome \<times> state" where
  "enhanceField e resumeId field index s =
     (case enhanceField_try e resumeId field index s of
        Inr result \<Rightarrow> result
      | Inl err \<Rightarrow> (Rejected (ReferenceError ''field is not defined''), s))"

section \<open>Concrete scenarios\<close>

text \<open>A persisted resume, a state holding it, and environments in which the generation
  model answers with a given text. \<open>parsed_reply\<close> is \<open>JSON.parse\<close> on the texts used
  below; \<open>plain_stringify\<close> is \<open>JSON.stringify\<close> on values whose strings need no
  escaping.\<close>

definition resume1 :: jsval where
  "resume1 = JObj
     [(''_id'', JStr ''r1''),
      (''name'', JStr ''Ann''),
      (''role'', JStr ''Engineer''),
      (''email'', JStr ''ann@example.com''),
      (''phone'', JStr ''555 0100''),
      (''summary'', JStr ''Builds things''),
      (''skills'', JArr [JStr ''Python'']),
      (''experience'', JArr
         [JObj [(''title'', JStr ''Developer''), (''companyName'', JStr ''Acme''),
                (''date'', JStr ''2020''), (''companyLocation'', JStr ''Oslo''),
                (''description'', JStr ''Wrote code''), (''accomplishment'', JStr ''Shipped'')],
          JObj [(''title'', JStr ''Intern''), (''companyName'', JStr ''Initech''),
                (''date'', JStr ''2019''), (''companyLocation'', JStr ''Bergen''),
                (''description'', JStr ''Helped''), (''accomplishment'', JStr ''Learned'')]]),
      (''createdAt'', JStr ''2024-01-01T09:00:00.000Z''),
      (''updatedAt'', JStr ''2024-01-01T09:00:00.000Z'')]"

definition state1 :: state where
  "state1 = \<lparr>store = [resume1], changeTrackers = [], timer = None, console = []\<rparr>"

definition idle_state :: state where
  "idle_state =
     \<lparr>store = [],
      changeTrackers =
        [(JStr ''u1'',
          \<lparr>lastData = JObj [(''name'', JStr ''Ann'')], pendingSave = False, lastSavedAt = JNull\<rparr>)],
      timer = None,
      console = []\<rparr>"

definition parsed_reply :: "string \<Rightarrow> jsval option" where
  \<open>parsed_reply reply =
     (if reply = ''{"description":"Led X","accomplishment":"Cut cost 20%"}''
      then Some (JObj [(''description'', JStr ''Led X''),
                       (''accomplishment'', JStr ''Cut cost 20%'')])
      else if reply = ''{"description":"  Led X  ","bonus":"yes"}''
      then Some (JObj [(''description'', JStr ''  Led X  ''), (''bonus'', JStr ''yes'')])
      else None)\<close>

definition quoted :: "string \<Rightarrow> string" where
  "quoted s = [CHR 0x22] @ s @ [CHR 0x22]"

fun plain_stringify :: "jsval \<Rightarrow> string" where
  "plain_stringify JUndefined = ''undefined''"
| "plain_stringify JNull = ''null''"
| "plain_stringify (JBool b) = (if b then ''true'' else ''false'')"
| "plain_stringify (JNum n) = show_int n"
| "plain_stringify (JStr s) = quoted s"
| "plain_stringify (JArr xs) = ''['' @ join '','' (map plain_stringify xs) @ '']''"
| "plain_stringify (JObj ps) =
     ''{'' @ join '','' (map (\<lambda>(k, v). quoted k @ '':'' @ plain_stringify v) ps) @ ''}''"

definition env_reply :: "string \<Rightarrow> env" where
  "env_reply reply =
     \<lparr>generateContent = (\<lambda>prompt. Inr reply),
      JSON_parse = parsed_reply,
      JSON_stringify = plain_stringify,
      validators = (\<lambda>doc. None),
      thrown = (\<lambda>failure. case failure of
                  CastFailure update \<Rightarrow> CastError ''Cast failed''
                | ImmutableId \<Rightarrow> MongoServerError ''The field _id is immutable''),
      now = JStr ''2024-05-01T10:00:00.000Z'',
      newId = JStr ''r2'',
      development = False\<rparr>"




definition stale_edit :: jsval where
  "stale_edit = JObj [(''_id'', JStr ''r9''), (''name'', JStr ''Ann''),
                      (''summary'', JStr ''Builds reliable things'')]"

definition pending_state :: state where
  "pending_state =
     \<lparr>store = [resume1],
      changeTrackers =
        [(JStr ''u1'',
          \<lparr>lastData = JObj [(''name'', JStr ''Ann'')], pendingSave = True, lastSavedAt = JNull\<rparr>)],
      timer = Some (JStr ''u1'', stale_edit),
      console = []\<rparr>"

text \<open>Data with blank skills: for the document \<open>r1\<close>, and for a new document.\<close>

definition blank_skills_update :: jsval where
  "blank_skills_update = JObj
     [(''_id'', JStr ''r1''),
      (''name'', JStr ''Ann''),
      (''email'', JStr ''ann@example.com''),
      (''phone'', JStr ''555 0100''),
      (''skills'', JArr [JStr '' Go '', JStr ''   '', JStr []])]"

definition blank_skills_create :: jsval where
  "blank_skills_create = JObj
     [(''name'', JStr ''Bob''),
      (''email'', JStr ''bob@example.com''),
      (''phone'', JStr ''555 0101''),
      (''skills'', JArr [JStr '' Go '', JStr ''   '', JStr []])]"





section \<open>Properties of the embedding\<close>

subsection \<open>Objects\<close>

lemma map_of_assign: "map_of (assign target source) = map_of target ++ map_of (rev source)"
  unfolding assign_def
proof (induction source arbitrary: target)
  case Nil
  then show ?case by simp
next
  case (Cons p source)
  obtain k v where p: "p = (k, v)" by (cases p)
  show ?case
    by (simp add: p Cons.IH update_conv' fun_eq_iff map_add_def split: option.splits)
qed

lemma lookup_assign_absent:
  "k \<notin> fst ` set source \<Longrightarrow> lookup (assign target source) k = lookup target k"
  by (simp add: lookup_def map_of_assign map_add_def map_of_eq_None_iff[THEN iffD2]
      split: option.splits)

lemma lookup_assign_present:
  "map_of (rev source) k = Some v \<Longrightarrow> lookup (assign target source) k = v"
  by (simp add: lookup_def map_of_assign map_add_def)

lemma get_prop_JArr_obj: "get_prop d f = JArr xs \<Longrightarrow> \<exists>ps. d = JObj ps"
  by (cases d) simp_all

subsection \<open>Casting\<close>

lemma cast_text_undefined: "cast_text lowercase JUndefined = Some JUndefined"
  by (simp add: cast_text_def)

lemma cast_props_lookup:
  "cast_props subpaths ps = Some ps' \<Longrightarrow> k \<in> set subpaths \<Longrightarrow>
   cast_text False (lookup ps k) = Some (lookup ps' k)"
proof (induction ps arbitrary: ps')
  case Nil
  then show ?case by (simp add: lookup_def cast_text_undefined)
next
  case (Cons p ps)
  obtain k' v where p: "p = (k', v)" by (cases p)
  show ?case
  proof (cases "k' \<in> set subpaths")
    case True
    with Cons.prems(1) obtain v' rest where
      v': "cast_text False v = Some v'" and rest: "cast_props subpaths ps = Some rest"
      and ps': "ps' = (k', v') # rest"
      by (auto simp: p split: option.splits)
    show ?thesis
    proof (cases "k = k'")
      case True
      then show ?thesis by (simp add: p ps' v' lookup_def)
    next
      case False
      with Cons.IH [OF rest Cons.prems(2)] show ?thesis
        by (simp add: p ps' lookup_def)
    qed
  next
    case False
    with Cons.prems have "cast_props subpaths ps = Some ps'" and "k \<noteq> k'"
      by (auto simp: p)
    with Cons.IH [OF _ Cons.prems(2)] show ?thesis
      by (simp add: p lookup_def)
  qed
qed

lemma cast_props_keys:
  "cast_props subpaths ps = Some ps' \<Longrightarrow> fst ` set ps' \<subseteq> set subpaths"
proof (induction ps arbitrary: ps')
  case Nil
  then show ?case by simp
next
  case (Cons p ps)
  obtain k' v where p: "p = (k', v)" by (cases p)
  from Cons.prems Cons.IH show ?case
    by (fastforce simp: p split: if_splits option.splits)
qed

lemma cast_props_absent:
  assumes "cast_props subpaths ps = Some ps'" and "k \<notin> set subpaths"
  shows "lookup ps' k = JUndefined"
proof -
  from cast_props_keys [OF assms(1)] assms(2) have "k \<notin> fst ` set ps'" by blast
  then have "map_of ps' k = None" by (simp add: map_of_eq_None_iff)
  then show ?thesis by (simp add: lookup_def)
qed

lemma those_map_update:
  "\<forall>x \<in> set xs. f x = Some x \<Longrightarrow> i < length xs \<Longrightarrow> f y = Some y' \<Longrightarrow>
   those (map f (xs[i := y])) = Some (xs[i := y'])"
proof (induction xs arbitrary: i)
  case Nil
  then show ?case by simp
next
  case (Cons x xs)
  have same: "those (map f xs) = Some xs"
    using Cons.prems(1) by (induction xs) simp_all
  show ?case
  proof (cases i)
    case 0
    then show ?thesis using Cons.prems same by simp
  next
    case (Suc j)
    then show ?thesis using Cons.prems Cons.IH [of j] by simp
  qed
qed

lemma those_map_update_fail:
  "i < length xs \<Longrightarrow> f y = None \<Longrightarrow> those (map f (xs[i := y])) = None"
proof (induction xs arbitrary: i)
  case Nil
  then show ?case by simp
next
  case (Cons x xs)
  show ?case
  proof (cases i)
    case 0
    then show ?thesis using Cons.prems by simp
  next
    case (Suc j)
    then show ?thesis using Cons.prems Cons.IH [of j] by (simp split: option.splits)
  qed
qed


lemma entry_schema_path:
  assumes "map_of entry_schema path = Some subpaths"
  shows "path \<in> set content_paths"
    and "schema_cast path v = cast_array (cast_entry subpaths) v"
    and "path \<noteq> ''_id''" and "path \<noteq> ''updatedAt''"
  using assms
  by (auto simp: entry_schema_def content_paths_def string_paths_def array_paths_def
      schema_cast_def split: if_splits)

text \<open>What the schema has cast, it casts to itself: the arrays of sub-documents that the
  store writes are held as the schema casts them.\<close>

lemma trim_idem: "trim (trim s) = trim s"
proof -
  define a where "a = dropWhile is_space s"
  define b where "b = dropWhile is_space (rev a)"
  have t: "trim s = rev b" by (simp add: trim_def a_def b_def)
  have "dropWhile is_space (rev b) = rev b"
  proof (cases "b = []")
    case True
    then show ?thesis by simp
  next
    case False
    have "rev a = takeWhile is_space (rev a) @ b"
      by (simp add: b_def)
    then have "a = rev b @ rev (takeWhile is_space (rev a))"
      by (metis rev_append rev_rev_ident)
    with False have hd: "hd (rev b) = hd a" and "a \<noteq> []"
      by (metis hd_append2 rev_is_Nil_conv, metis Nil_is_append_conv rev_is_Nil_conv)
    then have "\<not> is_space (hd a)"
      unfolding a_def by (metis hd_dropWhile)
    with hd show ?thesis
      by (simp add: dropWhile_eq_self_iff)
  qed
  then show ?thesis
    by (simp add: t) (simp add: trim_def b_def)
qed

lemma cast_text_idem: "cast_text False v = Some w \<Longrightarrow> cast_text False w = Some w"
  by (cases v) (auto simp: cast_text_def trim_idem split: jsval.splits if_splits)

lemma cast_props_idem: "cast_props subpaths ps = Some ps' \<Longrightarrow> cast_props subpaths ps' = Some ps'"
proof (induction ps arbitrary: ps')
  case Nil
  then show ?case by simp
next
  case (Cons p ps)
  obtain k v where p: "p = (k, v)" by (cases p)
  from Cons.prems Cons.IH show ?case
    by (auto simp: p cast_text_idem split: if_splits option.splits)
qed

lemma cast_entry_idem: "cast_entry subpaths x = Some y \<Longrightarrow> cast_entry subpaths y = Some y"
  by (auto simp: cast_entry_def cast_props_idem split: if_splits jsval.splits)

lemma those_map_all:
  "those (map f xs) = Some ys \<Longrightarrow> \<forall>y \<in> set ys. \<exists>x \<in> set xs. f x = Some y"
proof (induction xs arbitrary: ys)
  case Nil
  then show ?case by simp
next
  case (Cons x xs)
  then show ?case by (fastforce split: option.splits)
qed

lemma cast_entries_normal:
  assumes "map_of entry_schema path = Some subpaths"
    and "schema_cast path v = Some (JArr ys)"
  shows "\<forall>y \<in> set ys. cast_entry subpaths y = Some y"
proof -
  from assms have c: "cast_array (cast_entry subpaths) v = Some (JArr ys)"
    by (simp add: entry_schema_path(2))
  show ?thesis
  proof (cases v)
    case (JArr xs)
    with c have "those (map (cast_entry subpaths) xs) = Some ys"
      by (auto simp: cast_array_def)
    from those_map_all [OF this] show ?thesis
      by (blast intro: cast_entry_idem)
  qed (use c in \<open>auto simp: cast_array_def intro: cast_entry_idem\<close>)
qed

lemma entry_prompt_schema:
  "entry_prompt field = Some (key, prompt) \<Longrightarrow>
   \<exists>subpaths. map_of entry_schema (to_string field) = Some subpaths"
  by (auto simp: entry_prompt_def entry_schema_def split: if_splits)

subsection \<open>The store\<close>

lemma findById_Some_id: "findById docs ident = Some d \<Longrightarrow> get_prop d ''_id'' = ident"
  unfolding findById_def by (auto simp: find_Some_iff)

lemma findById_replace_same:
  "findById docs ident = Some d \<Longrightarrow> get_prop d' ''_id'' = ident \<Longrightarrow>
   findById (replace_doc ident d' docs) ident = Some d'"
  unfolding findById_def by (induction docs) (auto split: if_splits)

lemma findById_replace_other:
  "get_prop d' ''_id'' = ident \<Longrightarrow> ident' \<noteq> ident \<Longrightarrow>
   findById (replace_doc ident d' docs) ident' = findById docs ident'"
  unfolding findById_def by (induction docs) (auto split: if_splits)

text \<open>An update of one content path, without validators, of a document that exists.\<close>

lemma update_one_path:
  assumes "findById docs ident = Some d"
    and "path \<in> set content_paths" and "path \<noteq> ''_id''"
    and "schema_cast path v = Some v'"
  shows "findByIdAndUpdate e docs ident [(path, v)] False =
     Inr (Some (JObj (assign (own_props d) [(path, v'), (''updatedAt'', now e)])),
          replace_doc ident (JObj (assign (own_props d) [(path, v'), (''updatedAt'', now e)])) docs)"
  using assms by (simp add: findByIdAndUpdate_def Let_def lookup_def)

lemma update_one_path_fail:
  assumes "path \<in> set content_paths" and "schema_cast path v = None"
  shows "findByIdAndUpdate e docs ident [(path, v)] False =
           Inl (thrown e (CastFailure [(path, v)]))"
  using assms by (simp add: findByIdAndUpdate_def)

lemma updated_path:
  "path \<noteq> ''updatedAt'' \<Longrightarrow>
   lookup (assign ps [(path, v), (''updatedAt'', t)]) path = v"
  by (rule lookup_assign_present) simp

lemma updated_stamp: "lookup (assign ps [(path, v), (''updatedAt'', t)]) ''updatedAt'' = t"
  by (rule lookup_assign_present) simp

lemma updated_other:
  "f \<noteq> path \<Longrightarrow> f \<noteq> ''updatedAt'' \<Longrightarrow>
   lookup (assign ps [(path, v), (''updatedAt'', t)]) f = lookup ps f"
  by (rule lookup_assign_absent) auto

lemma entry_prompt_field:
  "entry_prompt field = Some (key, prompt) \<Longrightarrow>
   truthy field \<and> ''_id'' \<noteq> to_string field \<and> field = JStr (to_string field)"
  by (auto simp: entry_prompt_def split: if_splits)

subsection \<open>The scenarios\<close>

lemma state1_found: "findById (store state1) (JStr ''r1'') = Some resume1"
  by (simp add: state1_def findById_def resume1_def lookup_def)

lemma resume1_experience:
  "get_prop resume1 ''experience'' = JArr
         [JObj [(''title'', JStr ''Developer''), (''companyName'', JStr ''Acme''),
                (''date'', JStr ''2020''), (''companyLocation'', JStr ''Oslo''),
                (''description'', JStr ''Wrote code''), (''accomplishment'', JStr ''Shipped'')],
          JObj [(''title'', JStr ''Intern''), (''companyName'', JStr ''Initech''),
                (''date'', JStr ''2019''), (''companyLocation'', JStr ''Bergen''),
                (''description'', JStr ''Helped''), (''accomplishment'', JStr ''Learned'')]]"
  by (simp add: resume1_def lookup_def)

lemma experience_schema:
  "map_of entry_schema ''experience'' =
     Some [''title'', ''companyName'', ''date'', ''companyLocation'', ''description'',
           ''accomplishment'']"
  by (simp add: entry_schema_def)








subsection \<open>Saving\<close>

lemma saveResumeData_fail:
  "saveResumeData_try e resumeData isAutoSave userId (store s) = Inl err \<Longrightarrow>
   saveResumeData e resumeData isAutoSave userId s =
     (Inl err, log (LogSaveError isAutoSave err) s)"
  by (simp add: saveResumeData_def)





text \<open>The \<open>save\<close> middleware leaves only trimmed, non-empty skills in a document that is
  inserted by \<open>save()\<close>.\<close>

lemma map_skills_trimmed:
  "map_skills xs = Inr ys \<Longrightarrow> \<forall>y \<in> set ys. \<exists>s. y = JStr (trim s)"
proof (induction xs arbitrary: ys)
  case Nil
  then show ?case by simp
next
  case (Cons x xs)
  then show ?case
    by (cases x) (auto split: sum.splits)
qed

lemma pre_save_cleans_skills:
  assumes "pre_save doc = Inr doc'"
    and "get_prop doc' ''skills'' = JArr skills"
  shows "\<forall>skill \<in> set skills. \<exists>s. skill = JStr (trim s) \<and> trim s \<noteq> []"
proof (cases "get_prop doc ''skills''")
  case (JArr xs)
  then obtain trimmed where t: "map_skills xs = Inr trimmed"
    and d: "doc' = JObj (AList.update ''skills''
              (JArr (filter (\<lambda>skill. js_length skill > 0) trimmed)) (own_props doc))"
    using assms(1) by (auto simp: pre_save_def split: sum.splits)
  have kept: "skills = filter (\<lambda>skill. js_length skill > 0) trimmed"
    using assms(2) by (simp add: d lookup_def update_conv')
  show ?thesis
  proof
    fix skill assume "skill \<in> set skills"
    then have m: "skill \<in> set trimmed" and l: "js_length skill > 0"
      by (simp_all add: kept)
    from map_skills_trimmed [OF t] m obtain s where s: "skill = JStr (trim s)"
      by blast
    with l have "trim s \<noteq> []" by (simp add: js_length_def)
    with s show "\<exists>s. skill = JStr (trim s) \<and> trim s \<noteq> []" by blast
  qed
qed (use assms in \<open>auto simp: pre_save_def\<close>)

lemma pre_save_object: "pre_save (JObj ps) = Inr doc' \<Longrightarrow> \<exists>ps'. doc' = JObj ps'"
  by (auto simp: pre_save_def split: jsval.splits sum.splits)

lemma save_cleans_skills:
  assumes "save e docs data = Inr (doc, docs')"
    and "get_prop doc ''skills'' = JArr skills"
  shows "docs' = docs @ [doc]
       \<and> (\<forall>skill \<in> set skills. \<exists>s. skill = JStr (trim s) \<and> trim s \<noteq> [])"
proof -
  from assms(1) obtain cast cleaned where
    p: "pre_save (JObj ((''_id'', newId e) # with_defaults cast)) = Inr cleaned"
    and doc: "doc = JObj (assign (own_props cleaned)
                      [(''createdAt'', now e), (''updatedAt'', now e)])"
    and d: "docs' = docs @ [doc]"
    by (auto simp: save_def Let_def split: option.splits sum.splits)
  from pre_save_object [OF p] obtain ps' where c: "cleaned = JObj ps'" by blast
  have "get_prop cleaned ''skills'' = JArr skills"
    using assms(2) by (simp add: doc c lookup_assign_absent)
  from pre_save_cleans_skills [OF p this] d show ?thesis by simp
qed

section \<open>Enhancement of one entry\<close>

text \<open>
  Claim C1, as the code has it. When the generation model returns a text that
  \<open>JSON.parse\<close> rejects, \<open>enhanceField\<close> does not throw: it logs the failure and sends the
  response 500 with \<open>success: false\<close> and the message
  \<open>Failed to parse AI enhancement response\<close>; the store is left as it was.
\<close>

theorem invalid_json_entry_response:
  assumes "truthy resumeId"
    and "findById (store s) resumeId = Some resume"
    and "entry_prompt field = Some (key, prompt)"
    and "get_prop resume (to_string field) = JArr fieldData"
    and "0 \<le> index" and "index < int (length fieldData)"
    and "\<not> nullish (fieldData ! nat index)"
    and "generateContent e (prompt (fieldData ! nat index)) = Inr reply"
    and "JSON_parse e reply = None"
  shows "enhanceField e resumeId field (Some index) s =
           (parse_failed_response, log LogParseFailed s)
       \<and> store (snd (enhanceField e resumeId field (Some index) s)) = store s"
proof -
  have f: "truthy field"
    using assms(3) by (auto simp: entry_prompt_def split: if_splits)
  have a: "at_index fieldData index = fieldData ! nat index"
    using assms(5,6) by (simp add: at_index_def)
  have "enhance_entry e resumeId field index fieldData s =
          Inr (parse_failed_response, log LogParseFailed s)"
    using assms a by (simp add: enhance_entry_def index_out_of_range_def)
  then show ?thesis
    using assms f by (simp add: enhanceField_def enhanceField_try_def log_def)
qed

theorem invalid_json_entry_response_witness:
  "enhanceField (env_reply ''Sure, here is a better entry'')
     (JStr ''r1'') (JStr ''experience'') (Some 0) state1
   = (parse_failed_response, log LogParseFailed state1)"
proof -
  have arr: "get_prop resume1 (to_string (JStr ''experience'')) = JArr
         [JObj [(''title'', JStr ''Developer''), (''companyName'', JStr ''Acme''),
                (''date'', JStr ''2020''), (''companyLocation'', JStr ''Oslo''),
                (''description'', JStr ''Wrote code''), (''accomplishment'', JStr ''Shipped'')],
          JObj [(''title'', JStr ''Intern''), (''companyName'', JStr ''Initech''),
                (''date'', JStr ''2019''), (''companyLocation'', JStr ''Bergen''),
                (''description'', JStr ''Helped''), (''accomplishment'', JStr ''Learned'')]]"
    using resume1_experience by simp
  have sup: "entry_prompt (JStr ''experience'') = Some (''title'', experience_prompt)"
    by (simp add: entry_prompt_def)
  show ?thesis
    using invalid_json_entry_response [OF _ state1_found sup arr, of 0
        "env_reply ''Sure, here is a better entry''" "''Sure, here is a better entry''"]
    by (simp add: nullish_def env_reply_def parsed_reply_def)
qed

text \<open>
  Claim C1 as stated fails: with a reply that is not JSON, the response to the request for
  entry 0 of \<open>experience\<close> is not a success response.
\<close>

theorem invalid_json_not_success_counterexample:
  "JSON_parse (env_reply ''Sure, here is a better entry'') ''Sure, here is a better entry'' = None
   \<and> fst (enhanceField (env_reply ''Sure, here is a better entry'')
            (JStr ''r1'') (JStr ''experience'') (Some 0) state1)
     = Sent 500 (JObj [(''success'', JBool False),
                       (''message'', JStr ''Failed to parse AI enhancement response'')])"
  by (simp add: enhanceField_def enhanceField_try_def enhance_entry_def state1_def findById_def
        resume1_def lookup_def entry_prompt_def index_out_of_range_def at_index_def nullish_def
        env_reply_def parsed_reply_def parse_failed_response_def log_def)

text \<open>
  Claim C2, as the code has it. Let \<open>resume\<close> be the persisted document, \<open>field\<close> one of
  the five array fields supported for entries, with the sub-schema \<open>subpaths\<close>, the array
  \<open>resume[field]\<close> held as the schema casts it, \<open>index\<close> within its bounds, the entry there
  an object with properties \<open>props\<close>, and the parsed reply an object with properties
  \<open>parsedPartial\<close>. The handler merges \<open>parsedPartial\<close> onto \<open>props\<close> and writes the array.
  If the schema cannot cast the merged entry, the write throws and nothing changes.
  Otherwise the request succeeds, and in the stored document: a property of the entry
  that does not occur in \<open>parsedPartial\<close> keeps its value; one that does and is a path of
  the sub-schema takes the cast of its last binding in \<open>parsedPartial\<close>; a key that is not
  a path of the sub-schema is not stored; every other entry of the array is unchanged;
  every other field of the document is unchanged, except \<open>updatedAt\<close>, which takes the
  time of the write; every other document is unchanged.
\<close>

theorem entry_merge_frame:
  assumes rid: "truthy resumeId"
    and found: "findById (store s) resumeId = Some resume"
    and supported: "entry_prompt field = Some (key, prompt)"
    and schema: "map_of entry_schema (to_string field) = Some subpaths"
    and arr: "get_prop resume (to_string field) = JArr fieldData"
    and normal: "\<forall>x \<in> set fieldData. cast_entry subpaths x = Some x"
    and lo: "0 \<le> index" and hi: "index < int (length fieldData)"
    and entry: "fieldData ! nat index = JObj props"
    and gen: "generateContent e (prompt (JObj props)) = Inr reply"
    and parsed: "JSON_parse e reply = Some (JObj parsedPartial)"
  shows "case cast_props subpaths (assign props parsedPartial) of
           None \<Rightarrow>
             enhanceField e resumeId field (Some index) s =
               (Rejected (ReferenceError ''field is not defined''), s)
         | Some props' \<Rightarrow>
            (let fieldData' = fieldData[nat index := JObj props'];
                 resume' = JObj (assign (own_props resume)
                             [(to_string field, JArr fieldData'), (''updatedAt'', now e)]);
                 s' = snd (enhanceField e resumeId field (Some index) s)
             in fst (enhanceField e resumeId field (Some index) s) =
                  Sent 200 (JObj
                    [(''success'', JBool True),
                     (''message'',
                        JStr (''Enhanced '' @ to_string field @ '' entry successfully'')),
                     (''data'', JObj props'),
                     (''enhancedField'', field),
                     (''enhancedIndex'', JNum index)])
              \<and> s' = s\<lparr>store := replace_doc resumeId resume' (store s)\<rparr>
              \<and> findById (store s') resumeId = Some resume'
              \<and> get_prop resume' (to_string field) = JArr fieldData'
              \<and> (\<forall>k. k \<notin> fst ` set parsedPartial \<longrightarrow> lookup props' k = lookup props k)
              \<and> (\<forall>k v. k \<in> set subpaths \<and> map_of (rev parsedPartial) k = Some v \<longrightarrow>
                     cast_text False v = Some (lookup props' k))
              \<and> (\<forall>k. k \<notin> set subpaths \<longrightarrow> lookup props' k = JUndefined)
              \<and> (\<forall>j. j \<noteq> nat index \<longrightarrow> fieldData' ! j = fieldData ! j)
              \<and> (\<forall>f. f \<noteq> to_string field \<and> f \<noteq> ''updatedAt'' \<longrightarrow>
                     get_prop resume' f = get_prop resume f)
              \<and> get_prop resume' ''updatedAt'' = now e
              \<and> (\<forall>ident. ident \<noteq> resumeId \<longrightarrow>
                    findById (store s') ident = findById (store s) ident))"
proof -
  define merged where "merged = assign props parsedPartial"
  note fld = entry_prompt_field [OF supported]
  note path = entry_schema_path [OF schema]
  obtain ps where obj: "resume = JObj ps"
    using get_prop_JArr_obj [OF arr] by blast
  have inb: "nat index < length fieldData"
    using lo hi by simp
  have at: "at_index fieldData index = JObj props"
    using lo hi entry by (simp add: at_index_def)
  have props_normal: "cast_props subpaths props = Some props"
  proof -
    have "JObj props \<in> set fieldData"
      using inb entry by (metis nth_mem)
    with normal have "cast_entry subpaths (JObj props) = Some (JObj props)" by blast
    then show ?thesis by (auto simp: cast_entry_def)
  qed
  have merged_entry: "cast_entry subpaths (JObj merged) = map_option JObj (cast_props subpaths merged)"
    by (simp add: cast_entry_def)
  show ?thesis
  proof (cases "cast_props subpaths merged")
    case None
    have "those (map (cast_entry subpaths) (fieldData[nat index := JObj merged])) = None"
      using inb by (rule those_map_update_fail) (simp add: merged_entry None)
    then have "schema_cast (to_string field) (JArr (fieldData[nat index := JObj merged])) = None"
      by (simp add: path(2) cast_array_def)
    then have "findByIdAndUpdate e (store s) resumeId
                 [(to_string field, JArr (fieldData[nat index := JObj merged]))] False
               = Inl (thrown e (CastFailure
                   [(to_string field, JArr (fieldData[nat index := JObj merged]))]))"
      using path(1) by (rule update_one_path_fail [rotated])
    then have "enhance_entry e resumeId field index fieldData s
               = Inl (thrown e (CastFailure
                   [(to_string field, JArr (fieldData[nat index := JObj merged]))]))"
      using supported hi at gen parsed
      by (simp add: enhance_entry_def index_out_of_range_def nullish_def merged_def)
    then have "enhanceField e resumeId field (Some index) s =
                 (Rejected (ReferenceError ''field is not defined''), s)"
      using rid fld found arr by (simp add: enhanceField_def enhanceField_try_def)
    with None show ?thesis by (simp add: merged_def)
  next
    case (Some props')
    define fieldData' where "fieldData' = fieldData[nat index := JObj props']"
    define resume' where
      "resume' = JObj (assign (own_props resume)
                   [(to_string field, JArr fieldData'), (''updatedAt'', now e)])"
    have at': "at_index fieldData' index = JObj props'"
      using lo hi by (simp add: at_index_def fieldData'_def)
    have "those (map (cast_entry subpaths) (fieldData[nat index := JObj merged]))
            = Some fieldData'"
      unfolding fieldData'_def using normal inb
      by (rule those_map_update) (simp add: merged_entry Some)
    then have cast: "schema_cast (to_string field) (JArr (fieldData[nat index := JObj merged]))
                       = Some (JArr fieldData')"
      by (simp add: path(2) cast_array_def)
    have upd: "findByIdAndUpdate e (store s) resumeId
                 [(to_string field, JArr (fieldData[nat index := JObj merged]))] False
               = Inr (Some resume', replace_doc resumeId resume' (store s))"
      unfolding resume'_def using found path(1) path(3) cast by (rule update_one_path)
    have field': "get_prop resume' (to_string field) = JArr fieldData'"
      using path(4) by (simp add: resume'_def updated_path)
    have ent: "enhance_entry e resumeId field index fieldData s =
        Inr (Sent 200 (JObj
                  [(''success'', JBool True),
                   (''message'', JStr (''Enhanced '' @ to_string field @ '' entry successfully'')),
                   (''data'', JObj props'),
                   (''enhancedField'', field),
                   (''enhancedIndex'', JNum index)]),
             s\<lparr>store := replace_doc resumeId resume' (store s)\<rparr>)"
      using supported hi at gen parsed upd field' at'
      by (simp add: enhance_entry_def index_out_of_range_def nullish_def merged_def)
    have res: "enhanceField e resumeId field (Some index) s =
        (Sent 200 (JObj
                  [(''success'', JBool True),
                   (''message'', JStr (''Enhanced '' @ to_string field @ '' entry successfully'')),
                   (''data'', JObj props'),
                   (''enhancedField'', field),
                   (''enhancedIndex'', JNum index)]),
             s\<lparr>store := replace_doc resumeId resume' (store s)\<rparr>)"
      using rid fld found arr ent by (simp add: enhanceField_def enhanceField_try_def)
    have id': "get_prop resume' ''_id'' = resumeId"
      using fld findById_Some_id [OF found]
      by (simp add: resume'_def obj updated_other)
    have same: "findById (replace_doc resumeId resume' (store s)) resumeId = Some resume'"
      using found id' by (rule findById_replace_same)
    have other: "\<forall>ident. ident \<noteq> resumeId \<longrightarrow>
        findById (replace_doc resumeId resume' (store s)) ident = findById (store s) ident"
      using id' by (simp add: findById_replace_other)
    have keep: "\<forall>k. k \<notin> fst ` set parsedPartial \<longrightarrow> lookup props' k = lookup props k"
    proof (intro allI impI)
      fix k assume k: "k \<notin> fst ` set parsedPartial"
      then have m: "lookup merged k = lookup props k"
        by (simp add: merged_def lookup_assign_absent)
      show "lookup props' k = lookup props k"
      proof (cases "k \<in> set subpaths")
        case True
        from cast_props_lookup [OF Some True] cast_props_lookup [OF props_normal True] m
        show ?thesis by simp
      next
        case False
        from cast_props_absent [OF Some False] cast_props_absent [OF props_normal False]
        show ?thesis by simp
      qed
    qed
    have new: "\<forall>k v. k \<in> set subpaths \<and> map_of (rev parsedPartial) k = Some v \<longrightarrow>
                 cast_text False v = Some (lookup props' k)"
    proof (intro allI impI)
      fix k v assume a: "k \<in> set subpaths \<and> map_of (rev parsedPartial) k = Some v"
      then have "lookup merged k = v"
        by (simp add: merged_def lookup_assign_present)
      with cast_props_lookup [OF Some, of k] a
      show "cast_text False v = Some (lookup props' k)" by simp
    qed
    have dropped: "\<forall>k. k \<notin> set subpaths \<longrightarrow> lookup props' k = JUndefined"
      using cast_props_absent [OF Some] by blast
    have entries: "\<forall>j. j \<noteq> nat index \<longrightarrow> fieldData' ! j = fieldData ! j"
      by (simp add: fieldData'_def)
    have fields: "\<forall>f. f \<noteq> to_string field \<and> f \<noteq> ''updatedAt'' \<longrightarrow>
                    get_prop resume' f = get_prop resume f"
      by (simp add: resume'_def obj updated_other)
    have stamp: "get_prop resume' ''updatedAt'' = now e"
      by (simp add: resume'_def updated_stamp)
    show ?thesis
      unfolding merged_def [symmetric] Some option.case Let_def
        fieldData'_def [symmetric] resume'_def [symmetric]
      using res same other keep new dropped entries fields field' stamp by simp
  qed
qed

text \<open>Entry 0 of \<open>experience\<close> and a reply with a padded value and a key outside the
  sub-schema: the value is stored trimmed and the key is not stored.\<close>

theorem entry_merge_frame_witness:
  \<open>fst (enhanceField (env_reply ''{"description":"  Led X  ","bonus":"yes"}'')
          (JStr ''r1'') (JStr ''experience'') (Some 0) state1) =
     Sent 200 (JObj
       [(''success'', JBool True),
        (''message'', JStr ''Enhanced experience entry successfully''),
        (''data'', JObj [(''title'', JStr ''Developer''), (''companyName'', JStr ''Acme''),
                (''date'', JStr ''2020''), (''companyLocation'', JStr ''Oslo''),
                (''description'', JStr ''Led X''), (''accomplishment'', JStr ''Shipped'')]),
        (''enhancedField'', JStr ''experience''),
        (''enhancedIndex'', JNum 0)])\<close>
proof -
  have sup: "entry_prompt (JStr ''experience'') = Some (''title'', experience_prompt)"
    by (simp add: entry_prompt_def)
  have sch: "map_of entry_schema (to_string (JStr ''experience'')) =
     Some [''title'', ''companyName'', ''date'', ''companyLocation'', ''description'',
           ''accomplishment'']"
    using experience_schema by simp
  have arr: "get_prop resume1 (to_string (JStr ''experience'')) = JArr
         [JObj [(''title'', JStr ''Developer''), (''companyName'', JStr ''Acme''),
                (''date'', JStr ''2020''), (''companyLocation'', JStr ''Oslo''),
                (''description'', JStr ''Wrote code''), (''accomplishment'', JStr ''Shipped'')],
          JObj [(''title'', JStr ''Intern''), (''companyName'', JStr ''Initech''),
                (''date'', JStr ''2019''), (''companyLocation'', JStr ''Bergen''),
                (''description'', JStr ''Helped''), (''accomplishment'', JStr ''Learned'')]]"
    using resume1_experience by simp
  show ?thesis
    using entry_merge_frame [OF _ state1_found sup sch arr, where index = 0
        and props = "[(''title'', JStr ''Developer''), (''companyName'', JStr ''Acme''),
                (''date'', JStr ''2020''), (''companyLocation'', JStr ''Oslo''),
                (''description'', JStr ''Wrote code''), (''accomplishment'', JStr ''Shipped'')]"
        and e = \<open>env_reply ''{"description":"  Led X  ","bonus":"yes"}''\<close>
        and reply = \<open>''{"description":"  Led X  ","bonus":"yes"}''\<close>
        and parsedPartial = "[(''description'', JStr ''  Led X  ''), (''bonus'', JStr ''yes'')]"]
    by (simp add: env_reply_def parsed_reply_def Let_def assign_def cast_entry_def
          cast_text_def trim_def is_space_def whitespace_def)
qed

text \<open>
  Claim C2 as stated fails: the merge onto entry 0 of \<open>experience\<close> also changes the field
  \<open>updatedAt\<close> of the document.
\<close>

theorem entry_merge_updatedAt_counterexample:
  \<open>hd (store state1) = resume1
   \<and> get_prop resume1 ''updatedAt'' = JStr ''2024-01-01T09:00:00.000Z''
   \<and> get_prop (hd (store (snd
        (enhanceField (env_reply ''{"description":"Led X","accomplishment":"Cut cost 20%"}'')
           (JStr ''r1'') (JStr ''experience'') (Some 0) state1)))) ''updatedAt''
       = JStr ''2024-05-01T10:00:00.000Z''\<close>
  by (simp add: enhanceField_def enhanceField_try_def enhance_entry_def state1_def findById_def
        resume1_def lookup_def entry_prompt_def index_out_of_range_def at_index_def nullish_def
        env_reply_def parsed_reply_def findByIdAndUpdate_def Let_def assign_def
        content_paths_def string_paths_def array_paths_def schema_cast_def entry_schema_def
        cast_array_def cast_entry_def cast_text_def trim_def is_space_def whitespace_def)

text \<open>
  Claim C10. The index of an entry request is checked by \<open>index >= fieldData.length\<close>
  alone. A negative index passes the check, the read of the entry yields \<open>undefined\<close>, and
  the handler goes on: for a field without an entry prompt it answers that the field is
  not supported, otherwise reading the first property of the missing entry throws. In no
  case is the response the 400 for an invalid index.
\<close>

theorem negative_index_passes_check:
  assumes "index < 0"
  shows "\<not> index_out_of_range index fieldData
       \<and> at_index fieldData index = JUndefined
       \<and> enhance_entry e resumeId field index fieldData s =
           (case entry_prompt field of
              None \<Rightarrow> Inr (entry_unsupported_response, s)
            | Some (key, prompt) \<Rightarrow> Inl (cannot_read JUndefined key))
       \<and> (truthy resumeId \<and> truthy field \<and> findById (store s) resumeId = Some resume
            \<and> get_prop resume (to_string field) = JArr fieldData \<longrightarrow>
          fst (enhanceField e resumeId field (Some index) s) \<noteq> invalid_index_response)"
  using assms
  by (auto simp: index_out_of_range_def at_index_def enhance_entry_def nullish_def
        enhanceField_def enhanceField_try_def invalid_index_response_def
        entry_unsupported_response_def split: option.splits)

theorem negative_index_passes_check_witness:
  "(-1::int) < 0
   \<and> \<not> index_out_of_range (-1) [JStr ''Python'']
   \<and> at_index [JStr ''Python''] (-1) = JUndefined
   \<and> fst (enhanceField (env_reply ''x'') (JStr ''r1'') (JStr ''skills'') (Some (-1)) state1)
       \<noteq> invalid_index_response"
proof -
  have neg: "(-1::int) < 0" by simp
  have pre: "truthy (JStr ''r1'') \<and> truthy (JStr ''skills'')
       \<and> findById (store state1) (JStr ''r1'') = Some resume1
       \<and> get_prop resume1 (to_string (JStr ''skills'')) = JArr [JStr ''Python'']"
    by (simp add: state1_found) (simp add: resume1_def lookup_def)
  from negative_index_passes_check [OF neg, of "[JStr ''Python'']"
      "env_reply ''x''" "JStr ''r1''" "JStr ''skills''" state1 resume1] pre
  show ?thesis by simp
qed

section \<open>Enhancement of a whole field\<close>

text \<open>
  Claim C3, evaluated on the code. For the reply \<open>Python, , Go ,Go\<close> to a whole-field
  request for \<open>skills\<close>, the text is split on commas and each token trimmed, but the empty
  token is kept: the response carries, and the store holds, the four strings
  \<open>Python\<close>, the empty string, \<open>Go\<close>, \<open>Go\<close>.
\<close>

theorem skills_enhancement_keeps_empty_tokens:
  "fst (enhanceField (env_reply ''Python, , Go ,Go'') (JStr ''r1'') (JStr ''skills'') None state1) =
     Sent 200 (JObj
       [(''success'', JBool True),
        (''message'', JStr ''Enhanced skills successfully''),
        (''data'', JArr [JStr ''Python'', JStr [], JStr ''Go'', JStr ''Go''])])
   \<and> get_prop (hd (store (snd (enhanceField (env_reply ''Python, , Go ,Go'')
                                   (JStr ''r1'') (JStr ''skills'') None state1)))) ''skills''
       = JArr [JStr ''Python'', JStr [], JStr ''Go'', JStr ''Go'']"
  by (simp add: enhanceField_def enhanceField_try_def enhance_whole_def state1_def findById_def
        resume1_def lookup_def field_prompt_def skills_prompt_def skills_joined_def nullish_def
        env_reply_def findByIdAndUpdate_def Let_def assign_def trim_def is_space_def
        whitespace_def content_paths_def string_paths_def array_paths_def schema_cast_def
        cast_array_def)




section \<open>The change tracker\<close>

text \<open>
  Claim C8, as the code has it. For a tracked user, \<open>trackChanges\<close> sets \<open>pendingSave\<close>
  whatever the snapshot is, equal to \<open>lastData\<close> or not, leaves \<open>lastData\<close> and
  \<open>lastSavedAt\<close> as they were, and hands the snapshot to the debounced save. The
  comparison with \<open>lastData\<close> is made when the debounced save runs: for a snapshot that
  serialises like \<open>lastData\<close> it writes nothing and leaves the tracker pending.
\<close>

theorem trackChanges_marks_pending:
  assumes "map_of (changeTrackers s) userId = Some t"
  shows "map_of (changeTrackers (trackChanges userId resumeData s)) userId
           = Some (t\<lparr>pendingSave := True\<rparr>)
       \<and> timer (trackChanges userId resumeData s) = Some (userId, resumeData)
       \<and> (JSON_stringify e (lastData t) = JSON_stringify e resumeData \<longrightarrow>
            fire e (trackChanges userId resumeData s)
              = (trackChanges userId resumeData s)\<lparr>timer := None\<rparr>)"
  using assms
  by (simp add: trackChanges_def debouncedAutoSave_def update_conv' fire_def autoSave_def
        autoSave_try_def)

theorem trackChanges_marks_pending_witness:
  "map_of (changeTrackers
        (trackChanges (JStr ''u1'') (JObj [(''name'', JStr ''Bob'')]) idle_state)) (JStr ''u1'')
     = Some \<lparr>lastData = JObj [(''name'', JStr ''Ann'')], pendingSave = True, lastSavedAt = JNull\<rparr>
   \<and> fire (env_reply ''x'') (trackChanges (JStr ''u1'') (JObj [(''name'', JStr ''Ann'')]) idle_state)
     = idle_state\<lparr>changeTrackers :=
           [(JStr ''u1'',
             \<lparr>lastData = JObj [(''name'', JStr ''Ann'')], pendingSave = True,
                lastSavedAt = JNull\<rparr>)]\<rparr>"
proof -
  have h: "map_of (changeTrackers idle_state) (JStr ''u1'')
     = Some \<lparr>lastData = JObj [(''name'', JStr ''Ann'')], pendingSave = False, lastSavedAt = JNull\<rparr>"
    by (simp add: idle_state_def)
  from trackChanges_marks_pending [OF h, where resumeData = "JObj [(''name'', JStr ''Bob'')]"]
       trackChanges_marks_pending [OF h, where resumeData = "JObj [(''name'', JStr ''Ann'')]"
         and e = "env_reply ''x''"]
  show ?thesis
    by (simp add: trackChanges_def debouncedAutoSave_def idle_state_def)
qed

text \<open>
  Claim C8 as stated fails: the user \<open>u1\<close> is tracked and idle with \<open>lastData\<close> equal to
  the snapshot of the edit, and the edit sets \<open>pendingSave\<close>.
\<close>

theorem trackChanges_equal_snapshot_counterexample:
  "map_of (changeTrackers idle_state) (JStr ''u1'')
     = Some \<lparr>lastData = JObj [(''name'', JStr ''Ann'')], pendingSave = False, lastSavedAt = JNull\<rparr>
   \<and> map_of (changeTrackers
        (trackChanges (JStr ''u1'') (JObj [(''name'', JStr ''Ann'')]) idle_state)) (JStr ''u1'')
     = Some \<lparr>lastData = JObj [(''name'', JStr ''Ann'')], pendingSave = True, lastSavedAt = JNull\<rparr>"
  by (simp add: idle_state_def trackChanges_def debouncedAutoSave_def)

section \<open>Creating a resume\<close>




section \<open>The debounced save\<close>




text \<open>
  Claim C7. When the timer fires for a tracker with a pending change whose data differs
  from \<open>lastData\<close>, and \<open>saveResumeData\<close> throws, the error is caught inside the debounced
  function: it is logged, the function returns, and the tracker of the user is as before,
  with \<open>pendingSave\<close> set and \<open>lastData\<close> not updated. The store is unchanged.
\<close>

theorem failed_autosave_stays_pending:
  assumes tm: "timer s = Some (userId, resumeData)"
    and tr: "map_of (changeTrackers s) userId = Some t"
    and pend: "pendingSave t"
    and diff: "JSON_stringify e (lastData t) \<noteq> JSON_stringify e resumeData"
    and failed: "saveResumeData_try e resumeData True userId (store s) = Inl err"
  shows "fst (autoSave_try e userId resumeData (s\<lparr>timer := None\<rparr>)) = Some err
       \<and> fire e s = s\<lparr>timer := None,
                       console := console s @ [LogAutoSaving userId, LogSaveError True err,
                                               LogAutoSaveFailed err]\<rparr>
       \<and> map_of (changeTrackers (fire e s)) userId = Some t
       \<and> store (fire e s) = store s"
proof -
  have sv: "saveResumeData e resumeData True userId
              (log (LogAutoSaving userId) (s\<lparr>timer := None\<rparr>))
      = (Inl err, log (LogSaveError True err)
                    (log (LogAutoSaving userId) (s\<lparr>timer := None\<rparr>)))"
    using failed by (intro saveResumeData_fail) (simp add: log_def)
  have thrown: "autoSave_try e userId resumeData (s\<lparr>timer := None\<rparr>)
      = (Some err, log (LogSaveError True err)
                     (log (LogAutoSaving userId) (s\<lparr>timer := None\<rparr>)))"
    using tr pend diff sv by (simp add: autoSave_try_def)
  have fr: "fire e s = s\<lparr>timer := None,
                       console := console s @ [LogAutoSaving userId, LogSaveError True err,
                                               LogAutoSaveFailed err]\<rparr>"
    using tm thrown by (simp add: fire_def autoSave_def log_def)
  show ?thesis
    using thrown fr tr by simp
qed

theorem failed_autosave_stays_pending_witness:
  "fire (env_reply ''x'') pending_state =
     pending_state\<lparr>timer := None,
                    console := [LogAutoSaving (JStr ''u1''),
                                LogSaveError True (Error ''Resume not found''),
                                LogAutoSaveFailed (Error ''Resume not found'')]\<rparr>
   \<and> map_of (changeTrackers (fire (env_reply ''x'') pending_state)) (JStr ''u1'')
       = Some \<lparr>lastData = JObj [(''name'', JStr ''Ann'')], pendingSave = True, lastSavedAt = JNull\<rparr>"
proof -
  have tm: "timer pending_state = Some (JStr ''u1'', stale_edit)"
    by (simp add: pending_state_def)
  have tr: "map_of (changeTrackers pending_state) (JStr ''u1'')
       = Some \<lparr>lastData = JObj [(''name'', JStr ''Ann'')], pendingSave = True, lastSavedAt = JNull\<rparr>"
    by (simp add: pending_state_def)
  have diff: "JSON_stringify (env_reply ''x'')
                 (lastData \<lparr>lastData = JObj [(''name'', JStr ''Ann'')], pendingSave = True,
                              lastSavedAt = JNull\<rparr>)
              \<noteq> JSON_stringify (env_reply ''x'') stale_edit"
    by (simp add: env_reply_def stale_edit_def quoted_def)
  have failed: "saveResumeData_try (env_reply ''x'') stale_edit True (JStr ''u1'')
                  (store pending_state)
              = Inl (Error ''Resume not found'')"
    by (simp add: saveResumeData_try_def validateResumeData_def stale_edit_def nullish_def
        blank_def lookup_def trim_def is_space_def whitespace_def findByIdAndUpdate_def
        findById_def pending_state_def resume1_def content_paths_def string_paths_def
        array_paths_def schema_cast_def cast_text_def)
  from failed_autosave_stays_pending [OF tm tr _ diff failed]
  show ?thesis by (simp add: pending_state_def)
qed

section \<open>Cleaning of the skills on save\<close>

text \<open>
  Claim C9, evaluated on the code. Saving data that carries the identifier of a stored
  document goes through \<open>findByIdAndUpdate\<close>, which does not run the \<open>save\<close> middleware:
  the skills are stored as given, untrimmed and with the blank entries. Saving the same
  skills for a new document goes through \<open>save()\<close> and stores the one cleaned skill.
\<close>

theorem update_by_id_keeps_blank_skills:
  "get_prop (hd (store (snd
      (saveResumeData (env_reply ''x'') blank_skills_update False JUndefined state1)))) ''skills''
     = JArr [JStr '' Go '', JStr ''   '', JStr []]
   \<and> get_prop (last (store (snd
      (saveResumeData (env_reply ''x'') blank_skills_create False JUndefined state1)))) ''skills''
     = JArr [JStr ''Go'']"
  by (simp add: saveResumeData_def saveResumeData_try_def validateResumeData_def
        blank_skills_update_def blank_skills_create_def nullish_def
        blank_def lookup_def trim_def is_space_def whitespace_def findByIdAndUpdate_def
        findById_def findOne_email_def state1_def resume1_def env_reply_def assign_def Let_def
        email_rx_def Rep1_def log_def save_def pre_save_def js_length_def
        content_paths_def string_paths_def array_paths_def schema_cast_def cast_text_def
        cast_array_def toLowerCase_def to_lower_def upper_case_def lower_case_def
        with_defaults_def)

end
